theory Spec2Isabelle
  imports Complex_Main "HOL-Library.AList"
begin

section \<open>Strings and numbers as the Python code uses them\<close>

text \<open>
  Strings are lists of ASCII characters. \<open>char_le\<close> is the order of the code points,
  read off the eight bits of a character (most significant bit first). The classes are
  those of Python on ASCII text: \<open>str.isspace\<close> (and \<open>\s\<close>) holds for the
  code points 9 to 13 and 28 to 32, \<open>\w\<close> for letters, digits and the underscore;
  \<open>str.lower\<close> and \<open>str.upper\<close> flip bit 5 of a letter. Python floats are
  modelled as exact reals.
\<close>

fun bits_le :: "bool list \<Rightarrow> bool list \<Rightarrow> bool" where
  "bits_le (a # as) (b # bs) = (if a = b then bits_le as bs else b)"
| "bits_le _ _ = True"

fun char_le :: "char \<Rightarrow> char \<Rightarrow> bool" where
  "char_le (Char a0 a1 a2 a3 a4 a5 a6 a7) (Char b0 b1 b2 b3 b4 b5 b6 b7) =
     bits_le [a7, a6, a5, a4, a3, a2, a1, a0] [b7, b6, b5, b4, b3, b2, b1, b0]"

definition in_range :: "char \<Rightarrow> char \<Rightarrow> char \<Rightarrow> bool" where
  "in_range lo hi c = (char_le lo c \<and> char_le c hi)"

definition is_digit :: "char \<Rightarrow> bool" where
  "is_digit c = in_range CHR ''0'' CHR ''9'' c"

definition is_upper :: "char \<Rightarrow> bool" where
  "is_upper c = in_range CHR ''A'' CHR ''Z'' c"

definition is_lower :: "char \<Rightarrow> bool" where
  "is_lower c = in_range CHR ''a'' CHR ''z'' c"

definition is_space :: "char \<Rightarrow> bool" where
  "is_space c = (in_range (CHR 0x09) (CHR 0x0D) c \<or> in_range (CHR 0x1C) (CHR 0x20) c)"

definition is_word :: "char \<Rightarrow> bool" where
  "is_word c = (is_lower c \<or> is_upper c \<or> is_digit c \<or> c = CHR ''_'')"

fun set_bit5 :: "bool \<Rightarrow> char \<Rightarrow> char" where
  "set_bit5 b (Char b0 b1 b2 b3 b4 b5 b6 b7) = Char b0 b1 b2 b3 b4 b b6 b7"

definition lower_char :: "char \<Rightarrow> char" where
  "lower_char c = (if is_upper c then set_bit5 True c else c)"

definition upper_char :: "char \<Rightarrow> char" where
  "upper_char c = (if is_lower c then set_bit5 False c else c)"


definition str_lower :: "string \<Rightarrow> string" where
  "str_lower s = map lower_char s"

definition str_upper :: "string \<Rightarrow> string" where
  "str_upper s = map upper_char s"

text \<open>\<open>s.strip()\<close>, \<open>s.split()\<close>, \<open>sep.join(xs)\<close> and \<open>s.isdigit()\<close>.\<close>

definition str_strip :: "string \<Rightarrow> string" where
  "str_strip s = rev (dropWhile is_space (rev (dropWhile is_space s)))"

fun split_ws :: "string \<Rightarrow> string \<Rightarrow> string list" where
  "split_ws cur [] = (if cur = [] then [] else [cur])"
| "split_ws cur (c # cs) =
     (if is_space c then (if cur = [] then split_ws [] cs else cur # split_ws [] cs)
      else split_ws (cur @ [c]) cs)"

definition str_split :: "string \<Rightarrow> string list" where
  "str_split s = split_ws [] s"

fun str_join :: "string \<Rightarrow> string list \<Rightarrow> string" where
  "str_join sep [] = []"
| "str_join sep [x] = x"
| "str_join sep (x # y # ys) = x @ sep @ str_join sep (y # ys)"

definition str_isdigit :: "string \<Rightarrow> bool" where
  "str_isdigit s = (s \<noteq> [] \<and> list_all is_digit s)"

text \<open>\<open>s.startswith(p)\<close>.\<close>

fun starts_with :: "string \<Rightarrow> string \<Rightarrow> bool" where
  "starts_with [] s = True"
| "starts_with (p # ps) [] = False"
| "starts_with (p # ps) (c # cs) = (p = c \<and> starts_with ps cs)"


text \<open>\<open>s.endswith(suffix)\<close> and \<open>s.endswith(tuple)\<close>.\<close>

definition ends_with :: "string \<Rightarrow> string \<Rightarrow> bool" where
  "ends_with suffix s = starts_with (rev suffix) (rev s)"

definition ends_with_any :: "string list \<Rightarrow> string \<Rightarrow> bool" where
  "ends_with_any suffixes s = (\<exists>suffix \<in> set suffixes. ends_with suffix s)"



text \<open>Python's \<open>round(x)\<close>: to the nearest integer, ties to the even one.\<close>

definition py_round :: "real \<Rightarrow> int" where
  "py_round x =
     (let f = \<lfloor>x\<rfloor>; d = x - of_int f
      in if d < 1 / 2 then f else if 1 / 2 < d then f + 1
         else if even f then f else f + 1)"

text \<open>Python's \<open>round(x, n)\<close> on exact numbers.\<close>

definition py_round_digits :: "real \<Rightarrow> nat \<Rightarrow> real" where
  "py_round_digits x n = of_int (py_round (x * 10 ^ n)) / 10 ^ n"

section \<open>Regular expressions\<close>

text \<open>
  The fragment of Python's \<open>re\<close> that the sources use, as a syntax tree:
  \<^item> \<open>Str s\<close> is a run of literal characters, \<open>One a\<close> one character of a class;
  \<^item> \<open>Rep a m n greedy\<close> is a quantifier on a single character: \<open>a*\<close> is
    \<open>Rep a 0 None True\<close>, \<open>a+?\<close> is \<open>Rep a 1 None False\<close>, \<open>a{2,}\<close> is
    \<open>Rep a 2 None True\<close>, \<open>a{0,2}\<close> is \<open>Rep a 0 (Some 2) True\<close>;
  \<^item> \<open>Opt rs greedy\<close> is \<open>(?:rs)?\<close>, \<open>Alt [r1, r2, ...]\<close> is \<open>(?:r1|r2|...)\<close>,
    \<open>Grp rs\<close> is the capturing group \<open>(rs)\<close> (no pattern has two);
  \<^item> \<open>Bol\<close>, \<open>Eol\<close> and \<open>WordB\<close> are \<open>^\<close>, \<open>$\<close> and \<open>\b\<close>.
  \<open>GrpEnd\<close> is internal: it closes the group opened by \<open>Grp\<close>.

  \<open>mt ic rs prev s gs g\<close> matches the sequence \<open>rs\<close> at the front of \<open>s\<close> as a
  backtracking matcher does, trying the alternatives in Python's priority order: \<open>ic\<close>
  is \<open>re.IGNORECASE\<close>, \<open>prev\<close> the character before the position, \<open>gs\<close> the text
  from where the group opened, \<open>g\<close> the text captured so far. It returns the unmatched
  rest of \<open>s\<close> and the captured group.
\<close>

datatype citem = CChar char | CRange char char | CDigit | CWord | CSpace
datatype single = SLit char | SAny | SCls bool "citem list"
datatype rx = Str string | One single | Rep single nat "nat option" bool
  | Opt "rx list" bool | Alt "rx list list" | Grp "rx list" | GrpEnd | Bol | Eol | WordB

fun citem_ok :: "citem \<Rightarrow> char \<Rightarrow> bool" where
  "citem_ok (CChar d) c = (c = d)"
| "citem_ok (CRange lo hi) c = in_range lo hi c"
| "citem_ok CDigit c = is_digit c"
| "citem_ok CWord c = is_word c"
| "citem_ok CSpace c = is_space c"

fun single_ok :: "bool \<Rightarrow> single \<Rightarrow> char \<Rightarrow> bool" where
  "single_ok ic (SLit d) c = (if ic then lower_char d = lower_char c else d = c)"
| "single_ok ic SAny c = (c \<noteq> CHR 0x0A)"
| "single_ok ic (SCls neg items) c =
     (((\<exists>it \<in> set items. citem_ok it c) \<or>
       (ic \<and> ((\<exists>it \<in> set items. citem_ok it (lower_char c)) \<or>
               (\<exists>it \<in> set items. citem_ok it (upper_char c))))) \<noteq> neg)"

fun rx_size :: "rx \<Rightarrow> nat" where
  "rx_size (Opt rs g) = Suc (sum_list (map rx_size rs))"
| "rx_size (Alt as) = Suc (sum_list (map (\<lambda>a. Suc (sum_list (map rx_size a))) as))"
| "rx_size (Grp rs) = Suc (Suc (sum_list (map rx_size rs)))"
| "rx_size _ = Suc 0"

fun dec :: "nat option \<Rightarrow> nat option" where
  "dec None = None"
| "dec (Some n) = Some (n - 1)"

definition word_before :: "char option \<Rightarrow> bool" where
  "word_before p = (case p of None \<Rightarrow> False | Some c \<Rightarrow> is_word c)"

definition word_after :: "string \<Rightarrow> bool" where
  "word_after s = (case s of [] \<Rightarrow> False | c # _ \<Rightarrow> is_word c)"

text \<open>The matcher.\<close>

function mt :: "bool \<Rightarrow> rx list \<Rightarrow> char option \<Rightarrow> string \<Rightarrow> string \<Rightarrow> string option
    \<Rightarrow> (string \<times> string option) option" where
  "mt ic [] prev s gs g = Some (s, g)"
| "mt ic (Str [] # k) prev s gs g = mt ic k prev s gs g"
| "mt ic (Str (c # cs) # k) prev [] gs g = None"
| "mt ic (Str (c # cs) # k) prev (x # xs) gs g =
     (if single_ok ic (SLit c) x then mt ic (Str cs # k) (Some x) xs gs g else None)"
| "mt ic (One a # k) prev [] gs g = None"
| "mt ic (One a # k) prev (x # xs) gs g =
     (if single_ok ic a x then mt ic k (Some x) xs gs g else None)"
| "mt ic (Rep a mn mx gr # k) prev [] gs g =
     (if 0 < mn then None else mt ic k prev [] gs g)"
| "mt ic (Rep a mn mx gr # k) prev (x # xs) gs g =
     (if 0 < mn then
        (if single_ok ic a x then mt ic (Rep a (mn - 1) (dec mx) gr # k) (Some x) xs gs g
         else None)
      else if mx = Some 0 \<or> \<not> single_ok ic a x then mt ic k prev (x # xs) gs g
      else if gr then
        (case mt ic (Rep a 0 (dec mx) gr # k) (Some x) xs gs g of
           Some r \<Rightarrow> Some r
         | None \<Rightarrow> mt ic k prev (x # xs) gs g)
      else
        (case mt ic k prev (x # xs) gs g of
           Some r \<Rightarrow> Some r
         | None \<Rightarrow> mt ic (Rep a 0 (dec mx) gr # k) (Some x) xs gs g))"
| "mt ic (Opt rs gr # k) prev s gs g =
     (if gr then
        (case mt ic (rs @ k) prev s gs g of
           Some r \<Rightarrow> Some r
         | None \<Rightarrow> mt ic k prev s gs g)
      else
        (case mt ic k prev s gs g of
           Some r \<Rightarrow> Some r
         | None \<Rightarrow> mt ic (rs @ k) prev s gs g))"
| "mt ic (Alt [] # k) prev s gs g = None"
| "mt ic (Alt (a # as) # k) prev s gs g =
     (case mt ic (a @ k) prev s gs g of
        Some r \<Rightarrow> Some r
      | None \<Rightarrow> mt ic (Alt as # k) prev s gs g)"
| "mt ic (Grp rs # k) prev s gs g = mt ic (rs @ GrpEnd # k) prev s s g"
| "mt ic (GrpEnd # k) prev s gs g = mt ic k prev s gs (Some (take (length gs - length s) gs))"
| "mt ic (Bol # k) prev s gs g = (if prev = None then mt ic k prev s gs g else None)"
| "mt ic (Eol # k) prev s gs g =
     (if s = [] \<or> s = [CHR 0x0A] then mt ic k prev s gs g else None)"
| "mt ic (WordB # k) prev s gs g =
     (if word_before prev \<noteq> word_after s then mt ic k prev s gs g else None)"
  by pat_completeness auto
termination
  by (relation "measures [\<lambda>(ic, rs, prev, s, gs, g). sum_list (map rx_size rs),
                          \<lambda>(ic, rs, prev, s, gs, g). length s]") auto

text \<open>
  \<open>re.search\<close>: the first position where the pattern matches. The result is the text
  from the start of the match, the text after the match, and group 1.
\<close>

fun search_at :: "bool \<Rightarrow> rx list \<Rightarrow> char option \<Rightarrow> string
    \<Rightarrow> (string \<times> string \<times> string option) option" where
  "search_at ic rs prev [] =
     (case mt ic rs prev [] [] None of Some (r, g) \<Rightarrow> Some ([], r, g) | None \<Rightarrow> None)"
| "search_at ic rs prev (x # xs) =
     (case mt ic rs prev (x # xs) [] None of
        Some (r, g) \<Rightarrow> Some (x # xs, r, g)
      | None \<Rightarrow> search_at ic rs (Some x) xs)"

definition re_search :: "bool \<Rightarrow> rx list \<Rightarrow> string \<Rightarrow> (string \<times> string \<times> string option) option" where
  "re_search ic rs s = search_at ic rs None s"


text \<open>
  \<open>re.sub(pattern, repl, s)\<close>: every match, from left to right, is replaced by
  \<open>repl\<close>; after an empty match the scan copies one character and goes on.
\<close>

function sub_from :: "bool \<Rightarrow> rx list \<Rightarrow> string \<Rightarrow> char option \<Rightarrow> string \<Rightarrow> string" where
  "sub_from ic rs repl prev s =
     (case mt ic rs prev s [] None of
        Some (r, g) \<Rightarrow>
          if length r < length s
          then repl @ sub_from ic rs repl (Some (s ! (length s - length r - 1))) r
          else repl @ (case s of [] \<Rightarrow> [] | x # xs \<Rightarrow> x # sub_from ic rs repl (Some x) xs)
      | None \<Rightarrow> (case s of [] \<Rightarrow> [] | x # xs \<Rightarrow> x # sub_from ic rs repl (Some x) xs))"
  by pat_completeness auto
termination
  by (relation "measure (\<lambda>(ic, rs, repl, prev, s). length s)") auto

definition re_sub :: "bool \<Rightarrow> rx list \<Rightarrow> string \<Rightarrow> string \<Rightarrow> string" where
  "re_sub ic rs repl s = sub_from ic rs repl None s"



abbreviation cls_space :: single where "cls_space \<equiv> SCls False [CSpace]"
abbreviation cls_digit :: single where "cls_digit \<equiv> SCls False [CDigit]"
abbreviation cls_upper :: single where "cls_upper \<equiv> SCls False [CRange CHR ''A'' CHR ''Z'']"
abbreviation cls_name :: single where
  "cls_name \<equiv> SCls False [CRange CHR ''A'' CHR ''Z'', CRange CHR ''a'' CHR ''z'', CSpace]"

section \<open>transaction\_categorizer.py\<close>

subsection \<open>The regular expressions of the categorizer\<close>

text \<open>
  Every pattern of \<open>_build_category_patterns\<close> and \<open>_build_risk_keywords\<close> is a
  sequence of literal characters and \<open>.*\<close>. \<open>compile_pat\<close> reads such a pattern
  string into the syntax tree; \<open>re_search_str\<close> says whether
  \<open>re.search(pattern, s)\<close> finds a match.
\<close>

fun compile_pat :: "string \<Rightarrow> rx list" where
  "compile_pat [] = []"
| "compile_pat [c] = [One (SLit c)]"
| "compile_pat (c # d # cs) =
     (if c = CHR ''.'' \<and> d = CHR ''*'' then Rep SAny 0 None True # compile_pat cs
      else One (SLit c) # compile_pat (d # cs))"

definition re_search_str :: "bool \<Rightarrow> string \<Rightarrow> string \<Rightarrow> bool" where
  "re_search_str ic pattern s = (re_search ic (compile_pat pattern) s \<noteq> None)"

subsection \<open>The pattern tables\<close>

text \<open>The dictionary of \<open>_build_category_patterns\<close>, in insertion order.\<close>

definition category_patterns :: "(string \<times> string list) list" where
  "category_patterns =
   [(''Income'',
       [''salary'', ''payroll'', ''wages'', ''income'', ''credit.*salary'',
        ''employer'', ''pay.*credit'', ''salary.*credit'', ''salary.*transfer'']),
    (''Reward/Cashback'',
       [''reward'', ''cashback'', ''bonus'', ''cash.*back'', ''loyalty'',
        ''points.*credit'', ''reward.*points'', ''cashback.*credit'']),
    (''Refund'',
       [''refund'', ''reversal'', ''chargeback'', ''return.*refund'',
        ''refund.*credit'', ''payment.*reversal'', ''refund.*received'']),
    (''Bill Payment'',
       [''electricity'', ''water'', ''gas'', ''utility'', ''bill.*payment'',
        ''phone.*bill'', ''mobile.*bill'', ''internet.*bill'', ''cable.*bill'',
        ''electricity.*bill'', ''water.*bill'', ''gas.*bill'']),
    (''Subscription'',
       [''subscription'', ''netflix'', ''spotify'', ''prime'', ''monthly.*fee'',
        ''annually'', ''recurring.*subscription'', ''auto.*debit.*subscription'',
        ''amazon.*prime'', ''youtube.*premium'', ''subscription.*fee'']),
    (''EMI'',
       [''emi'', ''loan.*emi'', ''installment'', ''loan.*repayment'',
        ''equated.*monthly'', ''home.*loan.*emi'', ''car.*loan.*emi'',
        ''personal.*loan.*emi'', ''emi.*payment'']),
    (''UPI Transfer'',
       [''upi'', ''paytm'', ''phonepe'', ''gpay'', ''google.*pay'',
        ''bank.*transfer.*upi'', ''instant.*payment'', ''upi.*transfer'',
        ''upi.*payment'', ''upi.*to'', ''vpa.*upi'']),
    (''Bank Transfer'',
       [''neft'', ''rtgs'', ''imps'', ''bank.*transfer'', ''fund.*transfer'',
        ''online.*transfer'', ''electronic.*transfer'', ''eft'', ''wire.*transfer'']),
    (''Cash Flow'',
       [''atm'', ''cash.*withdrawal'', ''cash.*atm'', ''withdrawal.*atm'',
        ''cash.*deposit'', ''cash.*transaction'']),
    (''Loan'',
       [''loan.*disbursement'', ''personal.*loan'', ''credit.*limit'',
        ''loan.*credit'', ''advance.*loan'', ''loan.*sanction'',
        ''loan.*disbursed'', ''personal.*loan.*credit'']),
    (''Investment'',
       [''investment'', ''mutual.*fund'', ''stocks'', ''shares'',
        ''fixed.*deposit'', ''fd'', ''rd'', ''recurring.*deposit'',
        ''mutual.*fund.*purchase'', ''sip.*investment'', ''demat.*account'']),
    (''Expense'',
       [''expense'', ''purchase'', ''payment'', ''debit'', ''spending'',
        ''merchant.*payment'', ''pos.*transaction'', ''card.*payment''])]"

definition high_risk :: "string list" where
  "high_risk = [''casino'', ''gambling'', ''betting'', ''crypto'', ''bitcoin'', ''forex'',
                ''trading.*platform'']"

definition medium_risk :: "string list" where
  "medium_risk = [''online.*payment'', ''merchant.*unknown'', ''international'',
                  ''foreign.*transaction'']"

definition low_risk :: "string list" where
  "low_risk = [''salary'', ''utility'', ''government'', ''bank'', ''established.*merchant'']"

subsection \<open>categorize\_transaction\<close>

text \<open>
  The transaction dictionary, with the three keys the categorizer reads; a missing key is
  its default (\<open>''\<close>, \<open>0.0\<close>).
\<close>

record txn_in =
  txn_description :: string
  txn_credit :: real
  txn_debit :: real

record categorization =
  category :: string
  subcategory :: string
  merchant_risk_score :: real
  narration_risk_confidence :: real
  behavioral_deviation :: string

text \<open>
  The inner loop over the patterns of one category. The state is
  \<open>(matched_category, max_match_length)\<close>; the \<open>break\<close> leaves the category at the
  first pattern that matches and is longer than the running maximum.
\<close>

fun scan_patterns ::
  "string \<Rightarrow> string \<Rightarrow> string list \<Rightarrow> string option \<times> nat \<Rightarrow> string option \<times> nat" where
  "scan_patterns desc cat_key [] st = st"
| "scan_patterns desc cat_key (p # ps) (matched, mx) =
     (if re_search_str True p desc \<and> mx < length p then (Some cat_key, length p)
      else scan_patterns desc cat_key ps (matched, mx))"

text \<open>The outer loop over the categories.\<close>

fun scan_categories ::
  "string \<Rightarrow> (string \<times> string list) list \<Rightarrow> string option \<times> nat \<Rightarrow> string option \<times> nat" where
  "scan_categories desc [] st = st"
| "scan_categories desc ((cat_key, ps) # rest) st =
     scan_categories desc rest (scan_patterns desc cat_key ps st)"

definition calculate_merchant_risk :: "string \<Rightarrow> real" where
  "calculate_merchant_risk desc =
     (let d = str_lower desc
      in if \<exists>k \<in> set high_risk. re_search_str False k d then 9 / 10
         else if \<exists>k \<in> set medium_risk. re_search_str False k d then 6 / 10
         else if \<exists>k \<in> set low_risk. re_search_str False k d then 2 / 10
         else 5 / 10)"

text \<open>\<open>amount = float(credit) or float(debit)\<close>: the credit unless it is zero.\<close>

definition determine_behavioral_deviation :: "txn_in \<Rightarrow> string \<Rightarrow> string" where
  "determine_behavioral_deviation t cat =
     (let amount = (if txn_credit t \<noteq> 0 then txn_credit t else txn_debit t)
      in if 100000 < amount then ''High Value''
         else if amount < 10 then ''Micro Transaction''
         else if cat = ''Unknown'' then ''Uncategorized''
         else ''Normal'')"

definition categorize_transaction :: "txn_in \<Rightarrow> categorization" where
  "categorize_transaction t =
     (let desc = str_lower (txn_description t);
          (matched_category, max_match_length) = scan_categories desc category_patterns (None, 0);
          cat = (case matched_category of
                   Some c \<Rightarrow> c
                 | None \<Rightarrow> if 0 < txn_credit t then ''Income''
                           else if 0 < txn_debit t then ''Expense'' else ''Unknown'');
          risk = calculate_merchant_risk desc;
          conf = (case matched_category of
                    Some c \<Rightarrow> min (95 / 100) (5 / 10 + real max_match_length / 100)
                  | None \<Rightarrow> 3 / 10)
      in \<lparr> category = cat, subcategory = '''',
           merchant_risk_score = py_round_digits risk 3,
           narration_risk_confidence = py_round_digits conf 3,
           behavioral_deviation = determine_behavioral_deviation t cat \<rparr>)"

text \<open>
  The selection rule as the specification words it: over all categories and all their
  patterns, the category of the longest matching pattern, the first one in insertion
  order among equally long ones.
\<close>

definition all_category_patterns :: "(string \<times> string) list" where
  "all_category_patterns =
     concat (map (\<lambda>(cat_key, ps). map (\<lambda>p. (cat_key, p)) ps) category_patterns)"

fun longest_of :: "(string \<times> string) list \<Rightarrow> string option \<times> nat \<Rightarrow> string option \<times> nat" where
  "longest_of [] st = st"
| "longest_of ((cat_key, p) # rest) (matched, mx) =
     (if mx < length p then longest_of rest (Some cat_key, length p)
      else longest_of rest (matched, mx))"

definition spec_longest_match :: "string \<Rightarrow> string option \<times> nat" where
  "spec_longest_match desc =
     longest_of (filter (\<lambda>(cat_key, p). re_search_str True p desc) all_category_patterns) (None, 0)"

section \<open>entity\_normalizer.py\<close>

subsection \<open>The pattern tables of \<open>EntityNormalizer.__init__\<close>\<close>

text \<open>
  Each regular expression of the source is given as its syntax tree, under the source
  text of the expression. \<open>cls_space\<close> is \<open>\s\<close>, \<open>cls_digit\<close> is \<open>\d\<close>,
  \<open>cls_upper\<close> is \<open>[A-Z]\<close> and \<open>cls_name\<close> is \<open>[A-Za-z\s]\<close>.
\<close>

definition upi_patterns :: "rx list list" where
  \<open>upi_patterns =
   [
    \<comment> \<open>UPI/(?:CR|DR)/\d+/(.+?)/(?:OK|FAIL|PA|BI|AX|PASS)\<close>
     [Str ''UPI/'', Alt [[Str ''CR''], [Str ''DR'']], Str ''/'', Rep cls_digit 1 None True,
      Str ''/'', Grp [Rep SAny 1 None False], Str ''/'', Alt [[Str ''OK''], [Str ''FAIL''],
      [Str ''PA''], [Str ''BI''], [Str ''AX''], [Str ''PASS'']]],
    \<comment> \<open>UPI/(?:CR|DR)/\d+/(.+?)$\<close>
     [Str ''UPI/'', Alt [[Str ''CR''], [Str ''DR'']], Str ''/'', Rep cls_digit 1 None True,
      Str ''/'', Grp [Rep SAny 1 None False], Eol],
    \<comment> \<open>UPI/\d+/(.+?)/(?:OK|FAIL|PA|BI)$\<close>
     [Str ''UPI/'', Rep cls_digit 1 None True, Str ''/'', Grp [Rep SAny 1 None False],
      Str ''/'', Alt [[Str ''OK''], [Str ''FAIL''], [Str ''PA''], [Str ''BI'']], Eol],
    \<comment> \<open>UPI/(.+?)/(?:OK|FAIL|PA|BI)$\<close>
     [Str ''UPI/'', Grp [Rep SAny 1 None False], Str ''/'', Alt [[Str ''OK''], [Str ''FAIL''],
      [Str ''PA''], [Str ''BI'']], Eol],
    \<comment> \<open>UPI-(?:CR|DR)?-?\d*-?(.+?)(?:[-/]OK|[-/]FAIL|[-/]PA|[-/]BI|$)\<close>
     [Str ''UPI-'', Opt [Alt [[Str ''CR''], [Str ''DR'']]] True,
      Rep (SLit (CHR ''-'')) 0 (Some 1) True, Rep cls_digit 0 None True,
      Rep (SLit (CHR ''-'')) 0 (Some 1) True, Grp [Rep SAny 1 None False],
      Alt [[One (SCls False [CChar (CHR ''-''), CChar (CHR ''/'')]), Str ''OK''],
      [One (SCls False [CChar (CHR ''-''), CChar (CHR ''/'')]), Str ''FAIL''],
      [One (SCls False [CChar (CHR ''-''), CChar (CHR ''/'')]), Str ''PA''],
      [One (SCls False [CChar (CHR ''-''), CChar (CHR ''/'')]), Str ''BI''], [Eol]]],
    \<comment> \<open>UPI[-/]*(?:CR|DR)?[-/]*\d*[-/]*(.+?)(?:[-/]OK|[-/]PA|[-/]BI|$)\<close>
     [Str ''UPI'', Rep (SCls False [CChar (CHR ''-''), CChar (CHR ''/'')]) 0 None True,
      Opt [Alt [[Str ''CR''], [Str ''DR'']]] True, Rep (SCls False [CChar (CHR ''-''),
      CChar (CHR ''/'')]) 0 None True, Rep cls_digit 0 None True,
      Rep (SCls False [CChar (CHR ''-''), CChar (CHR ''/'')]) 0 None True,
      Grp [Rep SAny 1 None False], Alt [[One (SCls False [CChar (CHR ''-''),
      CChar (CHR ''/'')]), Str ''OK''], [One (SCls False [CChar (CHR ''-''),
      CChar (CHR ''/'')]), Str ''PA''], [One (SCls False [CChar (CHR ''-''),
      CChar (CHR ''/'')]), Str ''BI''], [Eol]]],
    \<comment> \<open>@([a-zA-Z0-9]+)\<close>
     [Str ''@'', Grp [Rep (SCls False [CRange (CHR ''a'') (CHR ''z''),
      CRange (CHR ''A'') (CHR ''Z''), CRange (CHR ''0'') (CHR ''9'')]) 1 None True]],
    \<comment> \<open>UPI[/\s]*@([a-zA-Z0-9]+)\<close>
     [Str ''UPI'', Rep (SCls False [CChar (CHR ''/''), CSpace]) 0 None True, Str ''@'',
      Grp [Rep (SCls False [CRange (CHR ''a'') (CHR ''z''), CRange (CHR ''A'') (CHR ''Z''),
      CRange (CHR ''0'') (CHR ''9'')]) 1 None True]],
    \<comment> \<open>UPI[/\s]*(?:from|to|by)[/\s]*([A-Z][A-Za-z\s]{2,})(?:\s*$|/)\<close>
     [Str ''UPI'', Rep (SCls False [CChar (CHR ''/''), CSpace]) 0 None True,
      Alt [[Str ''from''], [Str ''to''], [Str ''by'']], Rep (SCls False [CChar (CHR ''/''),
      CSpace]) 0 None True, Grp [One cls_upper, Rep cls_name 2 None True],
      Alt [[Rep cls_space 0 None True, Eol], [Str ''/'']]],
    \<comment> \<open>UPI/(?:D\d+)?[/\s]*([A-Z][A-Za-z\s]{2,})(?:\s*$|/)\<close>
     [Str ''UPI/'', Opt [Str ''D'', Rep cls_digit 1 None True] True,
      Rep (SCls False [CChar (CHR ''/''), CSpace]) 0 None True, Grp [One cls_upper,
      Rep cls_name 2 None True], Alt [[Rep cls_space 0 None True, Eol], [Str ''/'']]],
    \<comment> \<open>UPI[/\s]*(?:CR|DR)[/\s]*(?:D\d+)?[/\s]*([A-Z][A-Za-z\s]{2,})(?:\s*$)\<close>
     [Str ''UPI'', Rep (SCls False [CChar (CHR ''/''), CSpace]) 0 None True,
      Alt [[Str ''CR''], [Str ''DR'']], Rep (SCls False [CChar (CHR ''/''),
      CSpace]) 0 None True, Opt [Str ''D'', Rep cls_digit 1 None True] True,
      Rep (SCls False [CChar (CHR ''/''), CSpace]) 0 None True, Grp [One cls_upper,
      Rep cls_name 2 None True], Rep cls_space 0 None True, Eol],
    \<comment> \<open>(?:UPI|PAYTM|GPAY|PHONEPE)[/\s]*(?:CR|DR)?[/\s]*(?:D\d+)?[/\s]*([A-Z][A-Za-z\s]+?)(?:/OKPA|/OKAX|/OKBI|/OK|/PAYPASS|$)\<close>
     [Alt [[Str ''UPI''], [Str ''PAYTM''], [Str ''GPAY''], [Str ''PHONEPE'']],
      Rep (SCls False [CChar (CHR ''/''), CSpace]) 0 None True, Opt [Alt [[Str ''CR''],
      [Str ''DR'']]] True, Rep (SCls False [CChar (CHR ''/''), CSpace]) 0 None True,
      Opt [Str ''D'', Rep cls_digit 1 None True] True, Rep (SCls False [CChar (CHR ''/''),
      CSpace]) 0 None True, Grp [One cls_upper, Rep cls_name 1 None False],
      Alt [[Str ''/OKPA''], [Str ''/OKAX''], [Str ''/OKBI''], [Str ''/OK''],
      [Str ''/PAYPASS''], [Eol]]],
    \<comment> \<open>(?:UPI|upi)(?:[/\s-]*(?:CR|DR))?[/\s-]*\d*[/\s-]*([A-Z][A-Za-z\s]+?)(?:[/\s]*(?:OK|PA|BI)$|$)\<close>
     [Alt [[Str ''UPI''], [Str ''upi'']], Opt [Rep (SCls False [CChar (CHR ''/''), CSpace,
      CChar (CHR ''-'')]) 0 None True, Alt [[Str ''CR''], [Str ''DR'']]] True,
      Rep (SCls False [CChar (CHR ''/''), CSpace, CChar (CHR ''-'')]) 0 None True,
      Rep cls_digit 0 None True, Rep (SCls False [CChar (CHR ''/''), CSpace,
      CChar (CHR ''-'')]) 0 None True, Grp [One cls_upper, Rep cls_name 1 None False],
      Alt [[Rep (SCls False [CChar (CHR ''/''), CSpace]) 0 None True, Alt [[Str ''OK''],
      [Str ''PA''], [Str ''BI'']], Eol], [Eol]]]]\<close>

definition rtgs_patterns :: "rx list list" where
  \<open>rtgs_patterns =
   [
    \<comment> \<open>RTGS\s+CR[-]\s*[A-Z0-9]+[-]\s*([A-Z][A-Za-z\s]+?)(?:[-]\s*[A-Z0-9]|$)\<close>
     [Str ''RTGS'', Rep cls_space 1 None True, Str ''CR'',
      One (SCls False [CChar (CHR ''-'')]), Rep cls_space 0 None True,
      Rep (SCls False [CRange (CHR ''A'') (CHR ''Z''),
      CRange (CHR ''0'') (CHR ''9'')]) 1 None True, One (SCls False [CChar (CHR ''-'')]),
      Rep cls_space 0 None True, Grp [One cls_upper, Rep cls_name 1 None False],
      Alt [[One (SCls False [CChar (CHR ''-'')]), Rep cls_space 0 None True,
      One (SCls False [CRange (CHR ''A'') (CHR ''Z''), CRange (CHR ''0'') (CHR ''9'')])],
      [Eol]]],
    \<comment> \<open>RTGS\s+(?:CR|DR)[-]\s*([A-Z][A-Za-z\s]+?)(?:[-]|$)\<close>
     [Str ''RTGS'', Rep cls_space 1 None True, Alt [[Str ''CR''], [Str ''DR'']],
      One (SCls False [CChar (CHR ''-'')]), Rep cls_space 0 None True, Grp [One cls_upper,
      Rep cls_name 1 None False], Alt [[One (SCls False [CChar (CHR ''-'')])], [Eol]]],
    \<comment> \<open>RTGS\s+(?:from|to)?\s*([A-Z][A-Za-z\s]+?)(?:\s*$|,)\<close>
     [Str ''RTGS'', Rep cls_space 1 None True, Opt [Alt [[Str ''from''], [Str ''to'']]] True,
      Rep cls_space 0 None True, Grp [One cls_upper, Rep cls_name 1 None False],
      Alt [[Rep cls_space 0 None True, Eol], [Str '','']]],
    \<comment> \<open>RTGS[/\s]+(?:transfer|TRF)?[/\s]*([A-Z][A-Za-z\s]+?)(?:\s*$|,)\<close>
     [Str ''RTGS'', Rep (SCls False [CChar (CHR ''/''), CSpace]) 1 None True,
      Opt [Alt [[Str ''transfer''], [Str ''TRF'']]] True, Rep (SCls False [CChar (CHR ''/''),
      CSpace]) 0 None True, Grp [One cls_upper, Rep cls_name 1 None False],
      Alt [[Rep cls_space 0 None True, Eol], [Str '','']]],
    \<comment> \<open>RTGS\s+(?:CR|DR)?\s*[A-Z0-9/\-]*\s*([A-Z][A-Za-z\s]{2,})\<close>
     [Str ''RTGS'', Rep cls_space 1 None True, Opt [Alt [[Str ''CR''], [Str ''DR'']]] True,
      Rep cls_space 0 None True, Rep (SCls False [CRange (CHR ''A'') (CHR ''Z''),
      CRange (CHR ''0'') (CHR ''9''), CChar (CHR ''/''), CChar (CHR ''-'')]) 0 None True,
      Rep cls_space 0 None True, Grp [One cls_upper, Rep cls_name 2 None True]]]\<close>

definition neft_patterns :: "rx list list" where
  \<open>neft_patterns =
   [
    \<comment> \<open>NEFT\s+CR[-]\s*[A-Z0-9]+[-]\s*([A-Z][A-Za-z\s]+?)(?:[-]|$)\<close>
     [Str ''NEFT'', Rep cls_space 1 None True, Str ''CR'',
      One (SCls False [CChar (CHR ''-'')]), Rep cls_space 0 None True,
      Rep (SCls False [CRange (CHR ''A'') (CHR ''Z''),
      CRange (CHR ''0'') (CHR ''9'')]) 1 None True, One (SCls False [CChar (CHR ''-'')]),
      Rep cls_space 0 None True, Grp [One cls_upper, Rep cls_name 1 None False],
      Alt [[One (SCls False [CChar (CHR ''-'')])], [Eol]]],
    \<comment> \<open>NEFT\s+(?:CR|DR)[-]\s*[A-Z0-9]+[-]\s*([A-Z][A-Za-z\s]+?)(?:[-]|$)\<close>
     [Str ''NEFT'', Rep cls_space 1 None True, Alt [[Str ''CR''], [Str ''DR'']],
      One (SCls False [CChar (CHR ''-'')]), Rep cls_space 0 None True,
      Rep (SCls False [CRange (CHR ''A'') (CHR ''Z''),
      CRange (CHR ''0'') (CHR ''9'')]) 1 None True, One (SCls False [CChar (CHR ''-'')]),
      Rep cls_space 0 None True, Grp [One cls_upper, Rep cls_name 1 None False],
      Alt [[One (SCls False [CChar (CHR ''-'')])], [Eol]]],
    \<comment> \<open>NEFT\s+(?:from|to)?\s*([A-Z][A-Za-z\s]+?)(?:\s*$|,)\<close>
     [Str ''NEFT'', Rep cls_space 1 None True, Opt [Alt [[Str ''from''], [Str ''to'']]] True,
      Rep cls_space 0 None True, Grp [One cls_upper, Rep cls_name 1 None False],
      Alt [[Rep cls_space 0 None True, Eol], [Str '','']]],
    \<comment> \<open>NEFT[/\s]+(?:transfer|TRF)?[/\s]*([A-Z][A-Za-z\s]+?)(?:\s*$|,)\<close>
     [Str ''NEFT'', Rep (SCls False [CChar (CHR ''/''), CSpace]) 1 None True,
      Opt [Alt [[Str ''transfer''], [Str ''TRF'']]] True, Rep (SCls False [CChar (CHR ''/''),
      CSpace]) 0 None True, Grp [One cls_upper, Rep cls_name 1 None False],
      Alt [[Rep cls_space 0 None True, Eol], [Str '','']]],
    \<comment> \<open>NEFT\s+(?:CR|DR)?\s*[A-Z0-9/\-]*\s*([A-Z][A-Za-z\s]{2,})\<close>
     [Str ''NEFT'', Rep cls_space 1 None True, Opt [Alt [[Str ''CR''], [Str ''DR'']]] True,
      Rep cls_space 0 None True, Rep (SCls False [CRange (CHR ''A'') (CHR ''Z''),
      CRange (CHR ''0'') (CHR ''9''), CChar (CHR ''/''), CChar (CHR ''-'')]) 0 None True,
      Rep cls_space 0 None True, Grp [One cls_upper, Rep cls_name 2 None True]]]\<close>

definition imps_patterns :: "rx list list" where
  \<open>imps_patterns =
   [
    \<comment> \<open>IMPS\s+(?:CR|DR)[-]\s*[A-Z0-9]+[-]\s*([A-Z][A-Za-z\s]+?)(?:[-]|$)\<close>
     [Str ''IMPS'', Rep cls_space 1 None True, Alt [[Str ''CR''], [Str ''DR'']],
      One (SCls False [CChar (CHR ''-'')]), Rep cls_space 0 None True,
      Rep (SCls False [CRange (CHR ''A'') (CHR ''Z''),
      CRange (CHR ''0'') (CHR ''9'')]) 1 None True, One (SCls False [CChar (CHR ''-'')]),
      Rep cls_space 0 None True, Grp [One cls_upper, Rep cls_name 1 None False],
      Alt [[One (SCls False [CChar (CHR ''-'')])], [Eol]]],
    \<comment> \<open>IMPS[/]*(?:from|to)?\s*([A-Z][A-Za-z\s]+?)(?:\s*$|,)\<close>
     [Str ''IMPS'', Rep (SCls False [CChar (CHR ''/'')]) 0 None True,
      Opt [Alt [[Str ''from''], [Str ''to'']]] True, Rep cls_space 0 None True,
      Grp [One cls_upper, Rep cls_name 1 None False], Alt [[Rep cls_space 0 None True, Eol],
      [Str '','']]],
    \<comment> \<open>IMPS\s+(?:from|to)?\s*([A-Z][A-Za-z\s]+?)(?:\s*$)\<close>
     [Str ''IMPS'', Rep cls_space 1 None True, Opt [Alt [[Str ''from''], [Str ''to'']]] True,
      Rep cls_space 0 None True, Grp [One cls_upper, Rep cls_name 1 None False],
      Rep cls_space 0 None True, Eol],
    \<comment> \<open>IMPS[/\s]+(?:transfer|TRF)?[/\s]*([A-Z][A-Za-z\s]+?)(?:\s*$|,)\<close>
     [Str ''IMPS'', Rep (SCls False [CChar (CHR ''/''), CSpace]) 1 None True,
      Opt [Alt [[Str ''transfer''], [Str ''TRF'']]] True, Rep (SCls False [CChar (CHR ''/''),
      CSpace]) 0 None True, Grp [One cls_upper, Rep cls_name 1 None False],
      Alt [[Rep cls_space 0 None True, Eol], [Str '','']]],
    \<comment> \<open>IMPS\s+(?:CR|DR)?\s*[A-Z0-9/\-]*\s*([A-Z][A-Za-z\s]{2,})\<close>
     [Str ''IMPS'', Rep cls_space 1 None True, Opt [Alt [[Str ''CR''], [Str ''DR'']]] True,
      Rep cls_space 0 None True, Rep (SCls False [CRange (CHR ''A'') (CHR ''Z''),
      CRange (CHR ''0'') (CHR ''9''), CChar (CHR ''/''), CChar (CHR ''-'')]) 0 None True,
      Rep cls_space 0 None True, Grp [One cls_upper, Rep cls_name 2 None True]]]\<close>

definition transfer_patterns :: "rx list list" where
  \<open>transfer_patterns =
   [
    \<comment> \<open>(?:transfer|TRANSFER)\s+(?:from|to|FROM|TO)\s+([A-Z][A-Za-z\s]+?)(?:\s*$|,)\<close>
     [Alt [[Str ''transfer''], [Str ''TRANSFER'']], Rep cls_space 1 None True,
      Alt [[Str ''from''], [Str ''to''], [Str ''FROM''], [Str ''TO'']],
      Rep cls_space 1 None True, Grp [One cls_upper, Rep cls_name 1 None False],
      Alt [[Rep cls_space 0 None True, Eol], [Str '','']]],
    \<comment> \<open>PAID\s+TO\s+([A-Z][A-Za-z\s]+?)(?:\s*$|,)\<close>
     [Str ''PAID'', Rep cls_space 1 None True, Str ''TO'', Rep cls_space 1 None True,
      Grp [One cls_upper, Rep cls_name 1 None False], Alt [[Rep cls_space 0 None True, Eol],
      [Str '','']]],
    \<comment> \<open>RECEIVED\s+FROM\s+([A-Z][A-Za-z\s]+?)(?:\s*$|,)\<close>
     [Str ''RECEIVED'', Rep cls_space 1 None True, Str ''FROM'', Rep cls_space 1 None True,
      Grp [One cls_upper, Rep cls_name 1 None False], Alt [[Rep cls_space 0 None True, Eol],
      [Str '','']]],
    \<comment> \<open>BY\s+(?:TRANSFER|NEFT|RTGS|IMPS)[:\s-]*([A-Z][A-Za-z\s]+?)(?:\s*$|,)\<close>
     [Str ''BY'', Rep cls_space 1 None True, Alt [[Str ''TRANSFER''], [Str ''NEFT''],
      [Str ''RTGS''], [Str ''IMPS'']], Rep (SCls False [CChar (CHR '':''), CSpace,
      CChar (CHR ''-'')]) 0 None True, Grp [One cls_upper, Rep cls_name 1 None False],
      Alt [[Rep cls_space 0 None True, Eol], [Str '','']]],
    \<comment> \<open>TRF\s+(?:TO|FROM)[:\s]*([A-Z][A-Za-z\s]+?)(?:\s*$|,)\<close>
     [Str ''TRF'', Rep cls_space 1 None True, Alt [[Str ''TO''], [Str ''FROM'']],
      Rep (SCls False [CChar (CHR '':''), CSpace]) 0 None True, Grp [One cls_upper,
      Rep cls_name 1 None False], Alt [[Rep cls_space 0 None True, Eol], [Str '','']]],
    \<comment> \<open>TRANSFER\s+(?:TO|FROM)?\s*([A-Z][A-Za-z\s]+?)(?:\s*$|,)\<close>
     [Str ''TRANSFER'', Rep cls_space 1 None True, Opt [Alt [[Str ''TO''],
      [Str ''FROM'']]] True, Rep cls_space 0 None True, Grp [One cls_upper,
      Rep cls_name 1 None False], Alt [[Rep cls_space 0 None True, Eol], [Str '','']]],
    \<comment> \<open>Payment\s+(?:to|from)?\s*([A-Z][A-Za-z\s]+?)(?:\s*$|,)\<close>
     [Str ''Payment'', Rep cls_space 1 None True, Opt [Alt [[Str ''to''],
      [Str ''from'']]] True, Rep cls_space 0 None True, Grp [One cls_upper,
      Rep cls_name 1 None False], Alt [[Rep cls_space 0 None True, Eol], [Str '','']]]]\<close>

definition cash_patterns :: "rx list list" where
  \<open>cash_patterns =
   [
    \<comment> \<open>CASH\s+DEPOSIT\s+(?:AT|BY)?\s*([A-Z][A-Za-z\s]+?)(?:\s*$|,)\<close>
     [Str ''CASH'', Rep cls_space 1 None True, Str ''DEPOSIT'', Rep cls_space 1 None True,
      Opt [Alt [[Str ''AT''], [Str ''BY'']]] True, Rep cls_space 0 None True,
      Grp [One cls_upper, Rep cls_name 1 None False], Alt [[Rep cls_space 0 None True, Eol],
      [Str '','']]],
    \<comment> \<open>CASH\s+(?:DEPOSIT|WITHDRAWAL)[-]\s*([A-Z][A-Za-z\s]+?)(?:\s*$|,)\<close>
     [Str ''CASH'', Rep cls_space 1 None True, Alt [[Str ''DEPOSIT''], [Str ''WITHDRAWAL'']],
      One (SCls False [CChar (CHR ''-'')]), Rep cls_space 0 None True, Grp [One cls_upper,
      Rep cls_name 1 None False], Alt [[Rep cls_space 0 None True, Eol], [Str '','']]],
    \<comment> \<open>CASH\s+BY\s+([A-Z][A-Za-z\s]+?)(?:\s*$|,)\<close>
     [Str ''CASH'', Rep cls_space 1 None True, Str ''BY'', Rep cls_space 1 None True,
      Grp [One cls_upper, Rep cls_name 1 None False], Alt [[Rep cls_space 0 None True, Eol],
      [Str '','']]],
    \<comment> \<open>CASH\s+(?:DEPOSIT|WITHDRAWAL)\s+(?:AT)?\s*([A-Z][A-Za-z\s]{2,})\<close>
     [Str ''CASH'', Rep cls_space 1 None True, Alt [[Str ''DEPOSIT''], [Str ''WITHDRAWAL'']],
      Rep cls_space 1 None True, Opt [Str ''AT''] True, Rep cls_space 0 None True,
      Grp [One cls_upper, Rep cls_name 2 None True]]]\<close>

definition bill_patterns :: "rx list list" where
  \<open>bill_patterns =
   [
    \<comment> \<open>(?:BILL|EMI|LOAN)\s+(?:PAYMENT|REPAYMENT)[:\s]*([A-Z][A-Za-z\s]+?)(?:\s*$|,)\<close>
     [Alt [[Str ''BILL''], [Str ''EMI''], [Str ''LOAN'']], Rep cls_space 1 None True,
      Alt [[Str ''PAYMENT''], [Str ''REPAYMENT'']], Rep (SCls False [CChar (CHR '':''),
      CSpace]) 0 None True, Grp [One cls_upper, Rep cls_name 1 None False],
      Alt [[Rep cls_space 0 None True, Eol], [Str '','']]],
    \<comment> \<open>(?:BILL|EMI)\s+(?:FOR|TO)?\s*([A-Z][A-Za-z\s]+?)(?:\s*$|,)\<close>
     [Alt [[Str ''BILL''], [Str ''EMI'']], Rep cls_space 1 None True, Opt [Alt [[Str ''FOR''],
      [Str ''TO'']]] True, Rep cls_space 0 None True, Grp [One cls_upper,
      Rep cls_name 1 None False], Alt [[Rep cls_space 0 None True, Eol], [Str '','']]],
    \<comment> \<open>(?:CREDIT\s+CARD|DEBIT\s+CARD)\s+BILL[:\s]*([A-Z][A-Za-z\s]+?)(?:\s*$|,)\<close>
     [Alt [[Str ''CREDIT'', Rep cls_space 1 None True, Str ''CARD''], [Str ''DEBIT'',
      Rep cls_space 1 None True, Str ''CARD'']], Rep cls_space 1 None True, Str ''BILL'',
      Rep (SCls False [CChar (CHR '':''), CSpace]) 0 None True, Grp [One cls_upper,
      Rep cls_name 1 None False], Alt [[Rep cls_space 0 None True, Eol], [Str '','']]],
    \<comment> \<open>INSURANCE\s+(?:PREMIUM|PAYMENT)[:\s]*([A-Z][A-Za-z\s]+?)(?:\s*$|,)\<close>
     [Str ''INSURANCE'', Rep cls_space 1 None True, Alt [[Str ''PREMIUM''],
      [Str ''PAYMENT'']], Rep (SCls False [CChar (CHR '':''), CSpace]) 0 None True,
      Grp [One cls_upper, Rep cls_name 1 None False], Alt [[Rep cls_space 0 None True, Eol],
      [Str '','']]],
    \<comment> \<open>(?:BILL|PAYMENT)\s+(?:FOR|TO)?\s*([A-Z][A-Za-z\s]{2,})\<close>
     [Alt [[Str ''BILL''], [Str ''PAYMENT'']], Rep cls_space 1 None True,
      Opt [Alt [[Str ''FOR''], [Str ''TO'']]] True, Rep cls_space 0 None True,
      Grp [One cls_upper, Rep cls_name 2 None True]]]\<close>

definition salary_patterns :: "rx list list" where
  \<open>salary_patterns =
   [
    \<comment> \<open>SALARY\s+(?:FROM|TO)?\s*([A-Z][A-Za-z\s]+?)(?:\s*$|,)\<close>
     [Str ''SALARY'', Rep cls_space 1 None True, Opt [Alt [[Str ''FROM''],
      [Str ''TO'']]] True, Rep cls_space 0 None True, Grp [One cls_upper,
      Rep cls_name 1 None False], Alt [[Rep cls_space 0 None True, Eol], [Str '','']]],
    \<comment> \<open>INTEREST\s+(?:FROM|ON)?\s*([A-Z][A-Za-z\s]+?)(?:\s*$|,)\<close>
     [Str ''INTEREST'', Rep cls_space 1 None True, Opt [Alt [[Str ''FROM''],
      [Str ''ON'']]] True, Rep cls_space 0 None True, Grp [One cls_upper,
      Rep cls_name 1 None False], Alt [[Rep cls_space 0 None True, Eol], [Str '','']]],
    \<comment> \<open>DIVIDEND\s+(?:FROM)?\s*([A-Z][A-Za-z\s]+?)\<close>
     [Str ''DIVIDEND'', Rep cls_space 1 None True, Opt [Str ''FROM''] True,
      Rep cls_space 0 None True, Grp [One cls_upper, Rep cls_name 1 None False]]]\<close>

definition cheque_patterns :: "rx list list" where
  \<open>cheque_patterns =
   [
    \<comment> \<open>CHEQUE\s+(?:PAYMENT|DEPOSIT|CLEARING)[:\s-]*([A-Z][A-Za-z\s]{2,})\<close>
     [Str ''CHEQUE'', Rep cls_space 1 None True, Alt [[Str ''PAYMENT''], [Str ''DEPOSIT''],
      [Str ''CLEARING'']], Rep (SCls False [CChar (CHR '':''), CSpace,
      CChar (CHR ''-'')]) 0 None True, Grp [One cls_upper, Rep cls_name 2 None True]],
    \<comment> \<open>CHQ[:\s-]*([A-Z][A-Za-z\s]{2,})\<close>
     [Str ''CHQ'', Rep (SCls False [CChar (CHR '':''), CSpace,
      CChar (CHR ''-'')]) 0 None True, Grp [One cls_upper, Rep cls_name 2 None True]],
    \<comment> \<open>CHEQUE\s+NO[:\s]*\d+\s*(?:DRAWN\s+ON)?\s*([A-Z][A-Za-z\s]{2,})\<close>
     [Str ''CHEQUE'', Rep cls_space 1 None True, Str ''NO'',
      Rep (SCls False [CChar (CHR '':''), CSpace]) 0 None True, Rep cls_digit 1 None True,
      Rep cls_space 0 None True, Opt [Str ''DRAWN'', Rep cls_space 1 None True,
      Str ''ON''] True, Rep cls_space 0 None True, Grp [One cls_upper,
      Rep cls_name 2 None True]]]\<close>

definition interest_patterns :: "rx list list" where
  \<open>interest_patterns =
   [
    \<comment> \<open>CASA\s+CREDIT\s+INTEREST\s+CAPITALIZED\<close>
     [Str ''CASA'', Rep cls_space 1 None True, Str ''CREDIT'', Rep cls_space 1 None True,
      Str ''INTEREST'', Rep cls_space 1 None True, Str ''CAPITALIZED''],
    \<comment> \<open>INTEREST\s+CAPITALIZED\<close>
     [Str ''INTEREST'', Rep cls_space 1 None True, Str ''CAPITALIZED''],
    \<comment> \<open>INTEREST\s+PAID\<close>
     [Str ''INTEREST'', Rep cls_space 1 None True, Str ''PAID''],
    \<comment> \<open>INTEREST\s+CREDITED\<close>
     [Str ''INTEREST'', Rep cls_space 1 None True, Str ''CREDITED'']]\<close>
definition pattern_groups :: "(rx list list \<times> string) list" where
  "pattern_groups =
   [(upi_patterns, ''UPI''), (rtgs_patterns, ''Transfer''), (neft_patterns, ''Transfer''),
    (imps_patterns, ''Transfer''), (transfer_patterns, ''Transfer''),
    (cheque_patterns, ''Cheque''), (cash_patterns, ''Cash''), (bill_patterns, ''Bill''),
    (salary_patterns, ''Income'')]"

definition suffixes_to_remove :: "string list" where
  "suffixes_to_remove =
   [''TRADERS'', ''TRDG'', ''TRD'', ''AGENCIES'', ''AGY'', ''ENTERPRISES'', ''ENTP'',
    ''SERVICES'', ''SRV'', ''SOLUTIONS'', ''SOLN'', ''PVT'', ''LTD'', ''LIMITED'',
    ''CORP'', ''CORPORATION'', ''INC'', ''COMPANY'', ''CO'', ''HOLDINGS'', ''HDG'',
    ''INDUSTRIES'', ''CONSTRUCTIONS'', ''DEVELOPERS'', ''REALTY'', ''ESTATES'']"

definition merchant_aliases :: "(string \<times> string) list" where
  "merchant_aliases =
   [(''AMZN'', ''AMAZON''), (''AZ'', ''AMAZON''), (''FLIP'', ''FLIPKART''),
    (''SWIGGY'', ''SWIGGY''), (''ZOMATO'', ''ZOMATO''), (''MYN'', ''MYNTRA''),
    (''NYK'', ''NYKAA''), (''GPAY'', ''GPAY''), (''PHONEPE'', ''PHONEPE''),
    (''PAYTM'', ''PAYTM''), (''AMAZN'', ''AMAZON''), (''UBER'', ''UBER''),
    (''OLA'', ''OLA''), (''IRCTC'', ''IRCTC''), (''MM'', ''MAKE MY TRIP'')]"


subsection \<open>\_normalize\_name\<close>

text \<open>The pattern \<open>r'\b' + word + r'\b'\<close>, for a word of letters.\<close>

definition word_rx :: "string \<Rightarrow> rx list" where
  "word_rx w = [WordB, Str w, WordB]"

definition digits_and_marks :: "rx list" where
  \<comment> \<open>[0-9#*]\<close>
  \<open>digits_and_marks = [One (SCls False [CRange CHR ''0'' CHR ''9'', CChar CHR ''#'', CChar CHR ''*''])]\<close>

definition special_characters :: "rx list" where
  \<comment> \<open>[^\w\s]\<close>
  \<open>special_characters = [One (SCls True [CWord, CSpace])]\<close>

definition name_prefix :: "rx list" where
  \<comment> \<open>^(?:TO|FROM|FOR|AT|ON|BY|REF|REFNO|NO|NEW|AC|ACC|ACCOUNT|TRANSFER|TRF)\s*\<close>
  \<open>name_prefix =
     [Bol, Alt [[Str ''TO''], [Str ''FROM''], [Str ''FOR''], [Str ''AT''], [Str ''ON''],
                [Str ''BY''], [Str ''REF''], [Str ''REFNO''], [Str ''NO''], [Str ''NEW''],
                [Str ''AC''], [Str ''ACC''], [Str ''ACCOUNT''], [Str ''TRANSFER''],
                [Str ''TRF'']],
      Rep cls_space 0 None True]\<close>

definition normalize_name :: "string \<Rightarrow> string" where
  "normalize_name name0 =
     (if name0 = [] then []
      else
        let name1 = str_strip (str_upper name0);
            name2 = (case map_of merchant_aliases name1 of Some a \<Rightarrow> a | None \<Rightarrow> name1);
            name3 = re_sub False digits_and_marks '' '' name2;
            name4 = re_sub False special_characters '' '' name3;
            name5 = fold (\<lambda>suffix name. str_strip (re_sub True (word_rx suffix) [] name))
                      suffixes_to_remove name4;
            name6 = re_sub True name_prefix [] name5
        in str_join '' '' (str_split name6))"

subsection \<open>The entities table and \_register\_entity\<close>

text \<open>
  One value of the dictionary \<open>self.entities\<close>. The keys \<open>first_seen\<close>, \<open>last_seen\<close>,
  \<open>phone_numbers\<close> and \<open>aliases\<close> are created and never written again; they are left
  out. \<open>self.entities\<close> is a dictionary in insertion order: an association list whose
  new keys go to the end. \<open>self.entity_relations\<close> and \<open>self.upi_clusters\<close> are not
  touched by the operations below.
\<close>

record entity =
  original_names :: "string set"
  entity_type :: string
  transaction_count :: nat
  total_credit :: real
  total_debit :: real
  upi_handles :: "string set"

record normalizer =
  entities :: "(string \<times> entity) list"
  upi_to_party :: "string \<rightharpoonup> string"

definition empty_normalizer :: normalizer where
  "empty_normalizer = \<lparr> entities = [], upi_to_party = Map.empty \<rparr>"

definition new_entity :: "string \<Rightarrow> string \<Rightarrow> entity" where
  "new_entity original etype =
     \<lparr> original_names = {original}, entity_type = etype, transaction_count = 0,
       total_credit = 0, total_debit = 0, upi_handles = {} \<rparr>"

definition register_entity ::
  "string \<Rightarrow> string \<Rightarrow> string \<Rightarrow> real \<Rightarrow> bool \<Rightarrow> string option \<Rightarrow> normalizer \<Rightarrow> normalizer" where
  "register_entity normalized original etype amount is_credit upi_handle st =
     (let e0 = (case map_of (entities st) normalized of
                  None \<Rightarrow> new_entity original etype
                | Some e \<Rightarrow> e);
          e1 = e0 \<lparr> original_names := insert original (original_names e0),
                    transaction_count := transaction_count e0 + 1 \<rparr>;
          e2 = (if is_credit then e1 \<lparr> total_credit := total_credit e1 + \<bar>amount\<bar> \<rparr>
                else e1 \<lparr> total_debit := total_debit e1 + \<bar>amount\<bar> \<rparr>)
      in case upi_handle of
           None \<Rightarrow> st \<lparr> entities := AList.update normalized e2 (entities st) \<rparr>
         | Some h \<Rightarrow>
             if h = [] then st \<lparr> entities := AList.update normalized e2 (entities st) \<rparr>
             else st \<lparr> entities :=
                         AList.update normalized
                           (e2 \<lparr> upi_handles := insert h (upi_handles e2) \<rparr>) (entities st),
                       upi_to_party := (upi_to_party st)(h \<mapsto> normalized) \<rparr>)"

subsection \<open>extract\_entity\<close>

definition non_party_words :: "string list" where
  "non_party_words =
   [''DR'', ''CR'', ''TRF'', ''BY'', ''TO'', ''FROM'', ''PAID'', ''RECEIVED'', ''TRANSFER'',
    ''DEPOSIT'', ''WITHDRAWAL'', ''BALANCE'', ''CHARGES'', ''FEE'']"

text \<open>
  The loop over the patterns of one group: the first pattern that matches with a
  non-empty group 1 whose cleaned text has at least two characters and is not one of the
  non-party words.
\<close>

fun first_candidate :: "rx list list \<Rightarrow> string \<Rightarrow> string option" where
  "first_candidate [] description = None"
| "first_candidate (pattern # patterns) description =
     (case re_search True pattern description of
        None \<Rightarrow> first_candidate patterns description
      | Some (m, r, grp) \<Rightarrow>
          (case grp of
             None \<Rightarrow> first_candidate patterns description
           | Some g \<Rightarrow>
               if g = [] then first_candidate patterns description
               else
                 let candidate = str_join '' '' (str_split (str_strip (str_upper g)))
                 in if 2 \<le> length candidate \<and> candidate \<notin> set non_party_words
                    then Some candidate
                    else first_candidate patterns description))"

text \<open>The loop over the pattern groups: the entity and its type.\<close>

fun scan_groups :: "(rx list list \<times> string) list \<Rightarrow> string \<Rightarrow> (string \<times> string) option" where
  "scan_groups [] description = None"
| "scan_groups ((patterns, etype) # groups) description =
     (case first_candidate patterns description of
        Some candidate \<Rightarrow> Some (candidate, etype)
      | None \<Rightarrow> scan_groups groups description)"

text \<open>
  The meaningful words of a description: the transaction words are blanked out, the rest
  is split at white space, and the words of more than two characters that are not
  numbers are kept.
\<close>

definition meaningful_words :: "string list \<Rightarrow> string \<Rightarrow> string list" where
  "meaningful_words transaction_words description =
     (let cleaned = fold (\<lambda>word c. re_sub True (word_rx word) '' '' c) transaction_words
                      description
      in filter (\<lambda>w. 2 < length w \<and> \<not> str_isdigit w) (str_split (str_strip cleaned)))"

definition advanced_transaction_words :: "string list" where
  "advanced_transaction_words =
   [''DEPOSIT'', ''WITHDRAWAL'', ''PAYMENT'', ''TRANSFER'', ''CREDIT'', ''DEBIT'',
    ''BALANCE'', ''CHARGES'', ''FEE'', ''TAX'', ''EMI'', ''BILL'', ''SALARY'',
    ''INTEREST'', ''DIVIDEND'', ''REFUND'', ''REVERSAL'', ''CLEARING'', ''NO'', ''NUM'']"

definition transaction_words :: "string list" where
  "transaction_words =
   [''DEPOSIT'', ''WITHDRAWAL'', ''PAYMENT'', ''TRANSFER'', ''CREDIT'', ''DEBIT'',
    ''BALANCE'', ''CHARGES'', ''FEE'', ''TAX'', ''EMI'', ''BILL'', ''SALARY'',
    ''INTEREST'', ''DIVIDEND'', ''REFUND'', ''REVERSAL'', ''CLEARING'', ''NO'', ''NUM'',
    ''BY'', ''TO'', ''FROM'', ''FOR'', ''AT'', ''ON'']"

definition advanced_patterns :: "rx list list" where
  \<open>advanced_patterns =
   [
    \<comment> \<open>TO\s+([A-Z][A-Za-z\s]{2,})\<close>
     [Str ''TO'', Rep cls_space 1 None True, Grp [One cls_upper, Rep cls_name 2 None True]],
    \<comment> \<open>FOR\s+([A-Z][A-Za-z\s]{2,})\<close>
     [Str ''FOR'', Rep cls_space 1 None True, Grp [One cls_upper, Rep cls_name 2 None True]],
    \<comment> \<open>FROM\s+([A-Z][A-Za-z\s]{2,})\<close>
     [Str ''FROM'', Rep cls_space 1 None True, Grp [One cls_upper, Rep cls_name 2 None True]],
    \<comment> \<open>AT\s+([A-Z][A-Za-z\s]{2,})\<close>
     [Str ''AT'', Rep cls_space 1 None True, Grp [One cls_upper, Rep cls_name 2 None True]],
    \<comment> \<open>ON\s+([A-Z][A-Za-z\s]{2,})\<close>
     [Str ''ON'', Rep cls_space 1 None True, Grp [One cls_upper, Rep cls_name 2 None True]]]\<close>

definition candidate_prefix :: "rx list" where
  \<comment> \<open>^(TO|FROM|FOR|AT|ON|BY|REF|REFNO|NO|NEW|AC|ACC|ACCOUNT)\s*\<close>
  \<open>candidate_prefix =
     [Bol, Grp [Alt [[Str ''TO''], [Str ''FROM''], [Str ''FOR''], [Str ''AT''], [Str ''ON''],
                     [Str ''BY''], [Str ''REF''], [Str ''REFNO''], [Str ''NO''], [Str ''NEW''],
                     [Str ''AC''], [Str ''ACC''], [Str ''ACCOUNT'']]],
      Rep cls_space 0 None True]\<close>

text \<open>The loop of \<open>_extract_party_advanced\<close> over its five patterns.\<close>

fun advanced_candidate :: "rx list list \<Rightarrow> string \<Rightarrow> string option" where
  "advanced_candidate [] description = None"
| "advanced_candidate (pattern # patterns) description =
     (case re_search True pattern description of
        None \<Rightarrow> advanced_candidate patterns description
      | Some (m, r, grp) \<Rightarrow>
          (let g = (case grp of None \<Rightarrow> [] | Some t \<Rightarrow> t);
               candidate = str_join '' '' (str_split (str_strip (str_upper g)));
               candidate' = re_sub False candidate_prefix [] candidate
           in if 2 \<le> length candidate' then Some candidate'
              else advanced_candidate patterns description))"

definition extract_party_advanced :: "string \<Rightarrow> string option" where
  "extract_party_advanced description =
     (case advanced_candidate advanced_patterns description of
        Some candidate \<Rightarrow> Some candidate
      | None \<Rightarrow>
          (let meaningful = meaningful_words advanced_transaction_words description
           in if meaningful \<noteq> [] then Some (str_upper (str_join '' '' (take 3 meaningful)))
              else None))"

text \<open>Step 5 of \<open>extract_entity\<close>: the last resort.\<close>

definition extract_last_resort ::
  "string \<Rightarrow> real \<Rightarrow> bool \<Rightarrow> normalizer \<Rightarrow> string option \<times> normalizer" where
  "extract_last_resort description amount is_credit st =
     (let meaningful = meaningful_words transaction_words description
      in if meaningful \<noteq> [] then
           (let candidate = normalize_name (str_upper (str_join '' '' (take 3 meaningful)))
            in if 2 \<le> length candidate
               then (Some candidate,
                     register_entity candidate candidate ''General'' amount is_credit None st)
               else (None, st))
         else (None, st))"

text \<open>Step 4: the advanced extraction, then step 5.\<close>

definition extract_advanced ::
  "string \<Rightarrow> real \<Rightarrow> bool \<Rightarrow> normalizer \<Rightarrow> string option \<times> normalizer" where
  "extract_advanced description amount is_credit st =
     (case extract_party_advanced description of
        None \<Rightarrow> extract_last_resort description amount is_credit st
      | Some entity \<Rightarrow>
          if entity = [] then extract_last_resort description amount is_credit st
          else
            (let normalized = normalize_name entity
             in if normalized \<noteq> [] \<and> 2 \<le> length normalized
                then (Some normalized,
                      register_entity normalized entity ''General'' amount is_credit None st)
                else extract_last_resort description amount is_credit st))"

text \<open>Steps 1 and 2: the interest patterns, then the pattern groups.\<close>

definition find_entity :: "string \<Rightarrow> (string \<times> string) option" where
  "find_entity description =
     (if \<exists>pattern \<in> set interest_patterns. re_search True pattern description \<noteq> None
      then Some (''INTEREST INCOME'', ''Income'')
      else scan_groups pattern_groups description)"

text \<open>
  \<open>extract_entity\<close> returns the normalized name or \<open>None\<close>, and the normalizer with
  the entity registered. The \<open>upi_handle\<close> it passes on is always \<open>None\<close>.
\<close>

definition extract_entity ::
  "string \<Rightarrow> real \<Rightarrow> bool \<Rightarrow> normalizer \<Rightarrow> string option \<times> normalizer" where
  "extract_entity description0 amount is_credit st =
     (if description0 = [] then (None, st)
      else
        let description = str_strip (str_upper description0)
        in case find_entity description of
             None \<Rightarrow> extract_advanced description amount is_credit st
           | Some (entity, etype) \<Rightarrow>
               (let normalized = normalize_name entity
                in if normalized \<noteq> [] \<and> 2 \<le> length normalized
                   then (Some normalized,
                         register_entity normalized entity etype amount is_credit None st)
                   else extract_advanced description amount is_credit st))"

subsection \<open>merge\_entities\<close>

definition merge_entities :: "string \<Rightarrow> string \<Rightarrow> normalizer \<Rightarrow> bool \<times> normalizer" where
  "merge_entities entity1 entity2 st =
     (let norm1 = normalize_name entity1; norm2 = normalize_name entity2
      in case map_of (entities st) norm1 of
           None \<Rightarrow> (False, st)
         | Some entity1_data \<Rightarrow>
             (case map_of (entities st) norm2 of
                None \<Rightarrow> (False, st)
              | Some entity2_data \<Rightarrow>
                  if norm1 = norm2 then (True, st)
                  else
                    (let merged = entity1_data
                           \<lparr> original_names :=
                               original_names entity1_data \<union> original_names entity2_data,
                             transaction_count :=
                               transaction_count entity1_data + transaction_count entity2_data,
                             total_credit := total_credit entity1_data + total_credit entity2_data,
                             total_debit := total_debit entity1_data + total_debit entity2_data,
                             upi_handles :=
                               upi_handles entity1_data \<union> upi_handles entity2_data \<rparr>
                     in (True,
                         st \<lparr> entities :=
                                AList.update norm1 merged (AList.delete norm2 (entities st)),
                              upi_to_party :=
                                (\<lambda>upi. if upi \<in> upi_handles entity2_data then Some norm1
                                        else upi_to_party st upi) \<rparr>))))"

subsection \<open>find\_similar\_entities and auto\_merge\_similar\_entities\<close>






subsection \<open>Sequences of calls\<close>







subsection \<open>Predicates on the entities table\<close>






section \<open>fund\_flow\_chain\_builder.py\<close>

subsection \<open>Dates\<close>

















subsection \<open>Transactions and chains\<close>














subsection \<open>build\_chains\<close>







section \<open>pdf\_processor.py: \_validate\_and\_clean\<close>

subsection \<open>\_parse\_amount\<close>








subsection \<open>The rows and the two passes\<close>














section \<open>main.py: POST /api/analyze\<close>

text \<open>
  The handler \<open>analyze_statement\<close> up to the point where the transactions are
  extracted. What the two extractors do with the bytes of the file is a parameter: an
  extractor raises an exception with a message or returns a value. The Excel extractor
  returns a pair of the transactions and the account profile; the handler also accepts a
  bare list and takes anything else for no transactions. The rest of the handler
  (enrichment, chains, the JSON response or a 500 error) is the parameter \<open>respond\<close>.
\<close>

datatype ('t, 'p) excel_result =
    ExcelRaises string
  | ExcelPair "'t list" 'p
  | ExcelList "'t list"
  | ExcelOther

datatype 't pdf_result =
    PdfRaises string
  | PdfReturns "'t list"

datatype 'r response =
    HTTPException nat string
  | JSONResponse 'r

definition SUPPORTED_EXTENSIONS :: "string list" where
  "SUPPORTED_EXTENSIONS = [''.xls'', ''.xlsx'', ''.pdf'']"

definition no_transactions_detail :: string where
  "no_transactions_detail =
     ''No transactions found. Please ensure the file contains valid bank statement data.''"

definition analyze_statement ::
  "string \<Rightarrow> 'b list \<Rightarrow> ('b list \<Rightarrow> string \<Rightarrow> ('t, 'p) excel_result) \<Rightarrow>
   ('b list \<Rightarrow> 't pdf_result) \<Rightarrow> 'p \<Rightarrow> (string \<Rightarrow> 't list \<Rightarrow> 'p \<Rightarrow> 'r response) \<Rightarrow>
   'r response" where
  "analyze_statement filename file_bytes excel_extract pdf_extract empty_profile respond =
     (if \<not> ends_with_any SUPPORTED_EXTENSIONS (str_lower filename) then
        HTTPException 400
          (''Only '' @ str_join '', '' SUPPORTED_EXTENSIONS @ '' files are supported'')
      else if length file_bytes = 0 then HTTPException 400 ''Empty file''
      else
        let finish = (\<lambda>transactions account_profile.
              if transactions = [] then HTTPException 400 no_transactions_detail
              else respond filename transactions account_profile)
        in if ends_with_any [''.xls'', ''.xlsx''] (str_lower filename) then
             (case excel_extract file_bytes filename of
                ExcelRaises e \<Rightarrow> HTTPException 400 (''Failed to process Excel file: '' @ e)
              | ExcelPair transactions account_profile \<Rightarrow> finish transactions account_profile
              | ExcelList transactions \<Rightarrow> finish transactions empty_profile
              | ExcelOther \<Rightarrow> finish [] empty_profile)
           else if ends_with ''.pdf'' (str_lower filename) then
             (case pdf_extract file_bytes of
                PdfRaises e \<Rightarrow> HTTPException 400 (''Failed to process PDF file: '' @ e)
              | PdfReturns transactions \<Rightarrow>
                  if transactions = [] then
                    HTTPException 400
                      (''Failed to process PDF file: '' @ ''No transactions found in PDF.'')
                  else finish transactions empty_profile)
           else finish [] empty_profile)"

text \<open>The transactions an extraction yields; none when the extractor raises.\<close>

fun excel_transactions :: "('t, 'p) excel_result \<Rightarrow> 't list" where
  "excel_transactions (ExcelPair transactions account_profile) = transactions"
| "excel_transactions (ExcelList transactions) = transactions"
| "excel_transactions _ = []"

fun pdf_transactions :: "'t pdf_result \<Rightarrow> 't list" where
  "pdf_transactions (PdfReturns transactions) = transactions"
| "pdf_transactions _ = []"

definition status_code :: "'r response \<Rightarrow> nat" where
  "status_code r = (case r of HTTPException code detail \<Rightarrow> code | JSONResponse content \<Rightarrow> 200)"

section \<open>The character classes on sample characters\<close>

text \<open>
  The classes pick the digits, the letters, the word characters and the white space out of
  samples that hold the neighbours of each range; upper- and lower-casing change the
  letters only.
\<close>

lemma ascii_classes:
  "filter is_digit ''az AZ_09 /:@[`{-.,'' = ''09''"
  "filter is_upper ''az AZ_09 /:@[`{-.,'' = ''AZ''"
  "filter is_lower ''az AZ_09 /:@[`{-.,'' = ''az''"
  "filter is_word ''az AZ_09 /:@[`{-.,'' = ''azAZ_09''"
  "filter is_space [CHR 0x08, CHR 0x09, CHR 0x0A, CHR 0x0D, CHR 0x0E, CHR 0x1B, CHR 0x1C,
                    CHR 0x1F, CHR 0x20, CHR 0x21, CHR ''a'']
     = [CHR 0x09, CHR 0x0A, CHR 0x0D, CHR 0x1C, CHR 0x1F, CHR 0x20]"
  "str_upper ''Payment to 12 @[`{'' = ''PAYMENT TO 12 @[`{''"
  "str_lower ''Payment TO 12 @[`{'' = ''payment to 12 @[`{''"
  by code_simp+

section \<open>Properties of the categorizer\<close>



text \<open>
  C1. On the description "upi payment" the longest matching pattern over all categories
  is \<open>upi.*payment\<close> (12 characters, category "UPI Transfer"), but the scan leaves the
  category "UPI Transfer" at its first match \<open>upi\<close> and then prefers \<open>payment\<close>
  (7 characters) of "Expense": the category returned is "Expense" and the confidence is
  0.57, not 0.62.
\<close>

theorem categorize_upi_payment_not_longest:
  "spec_longest_match (str_lower ''upi payment'') = (Some ''UPI Transfer'', 12) \<and>
   category (categorize_transaction \<lparr>txn_description = ''upi payment'', txn_credit = 0, txn_debit = 100\<rparr>)
     = ''Expense'' \<and>
   narration_risk_confidence
     (categorize_transaction \<lparr>txn_description = ''upi payment'', txn_credit = 0, txn_debit = 100\<rparr>)
     = 57 / 100"
  by code_simp

section \<open>Properties of the entity normalizer\<close>

subsection \<open>What extract\_entity returns\<close>







subsection \<open>Totals and counts in reachable states\<close>




















subsection \<open>The two RAHUL narrations\<close>

lemma rahul_enterprises_found:
  "str_strip (str_upper ''PAYMENT TO RAHUL ENTERPRISES'') = ''PAYMENT TO RAHUL ENTERPRISES'' \<and>
   find_entity ''PAYMENT TO RAHUL ENTERPRISES'' = Some (''RAHUL ENTERPRISES'', ''Transfer'') \<and>
   normalize_name ''RAHUL ENTERPRISES'' = ''RAHUL''"
  by code_simp

lemma rahul_entp_found:
  "str_strip (str_upper ''PAYMENT TO RAHUL ENTP'') = ''PAYMENT TO RAHUL ENTP'' \<and>
   find_entity ''PAYMENT TO RAHUL ENTP'' = Some (''RAHUL ENTP'', ''Transfer'') \<and>
   normalize_name ''RAHUL ENTP'' = ''RAHUL''"
  by code_simp

lemma extract_rahul_enterprises:
  "extract_entity ''PAYMENT TO RAHUL ENTERPRISES'' a c st =
     (Some ''RAHUL'', register_entity ''RAHUL'' ''RAHUL ENTERPRISES'' ''Transfer'' a c None st)"
  by (simp add: extract_entity_def rahul_enterprises_found Let_def)

lemma extract_rahul_entp:
  "extract_entity ''PAYMENT TO RAHUL ENTP'' a c st =
     (Some ''RAHUL'', register_entity ''RAHUL'' ''RAHUL ENTP'' ''Transfer'' a c None st)"
  by (simp add: extract_entity_def rahul_entp_found Let_def)

text \<open>
  C7. \<open>extract_entity\<close> on "PAYMENT TO RAHUL ENTERPRISES" and then on
  "PAYMENT TO RAHUL ENTP", from the empty normalizer and for any amounts and flags,
  returns the key "RAHUL" both times; afterwards the entities table holds the single
  key "RAHUL", with two registrations and both original names. No merge is called.
\<close>

theorem rahul_narrations_same_entity:
  "fst (extract_entity ''PAYMENT TO RAHUL ENTERPRISES'' a1 c1 empty_normalizer) = Some ''RAHUL'' \<and>
   fst (extract_entity ''PAYMENT TO RAHUL ENTP'' a2 c2
          (snd (extract_entity ''PAYMENT TO RAHUL ENTERPRISES'' a1 c1 empty_normalizer)))
     = Some ''RAHUL'' \<and>
   map (\<lambda>(key, e). (key, transaction_count e, original_names e))
     (entities (snd (extract_entity ''PAYMENT TO RAHUL ENTP'' a2 c2
        (snd (extract_entity ''PAYMENT TO RAHUL ENTERPRISES'' a1 c1 empty_normalizer)))))
     = [(''RAHUL'', 2, {''RAHUL ENTERPRISES'', ''RAHUL ENTP''})]"
  by (auto simp: extract_rahul_enterprises extract_rahul_entp register_entity_def
        empty_normalizer_def new_entity_def Let_def)

text \<open>
  C3. \<open>_normalize_name\<close> is not idempotent: "ATTORNEY" is normalized to "TORNEY"
  (the prefix pattern removes the leading "AT" of the word), and normalizing "TORNEY"
  again gives "RNEY" (it removes the leading "TO").
\<close>

theorem normalize_name_attorney_twice:
  "normalize_name ''ATTORNEY'' = ''TORNEY'' \<and>
   normalize_name (normalize_name ''ATTORNEY'') = ''RNEY''"
  by code_simp




subsection \<open>Claims on reachable states\<close>


text \<open>
  C9. Both "TORNEY" (the normalized form of "ATTORNEY") and "RAHUL" are registered keys,
  yet \<open>merge_entities("TORNEY", "RAHUL")\<close> returns \<open>False\<close> and removes nothing:
  the call normalizes "TORNEY" once more, to "RNEY", which is not a key.
\<close>

theorem merge_unnormalized_key_fails:
  "map fst (entities (snd (extract_entity ''PAYMENT TO RAHUL ENTP'' 50 False
      (snd (extract_entity ''PAID TO ATTORNEY'' 100 True empty_normalizer)))))
     = [''TORNEY'', ''RAHUL''] \<and>
   fst (merge_entities ''TORNEY'' ''RAHUL''
      (snd (extract_entity ''PAYMENT TO RAHUL ENTP'' 50 False
         (snd (extract_entity ''PAID TO ATTORNEY'' 100 True empty_normalizer))))) = False \<and>
   map fst (entities (snd (merge_entities ''TORNEY'' ''RAHUL''
      (snd (extract_entity ''PAYMENT TO RAHUL ENTP'' 50 False
         (snd (extract_entity ''PAID TO ATTORNEY'' 100 True empty_normalizer)))))))
     = [''TORNEY'', ''RAHUL'']"
  by code_simp

section \<open>Properties of the fund flow chain builder\<close>





section \<open>Properties of \_validate\_and\_clean\<close>




section \<open>Properties of POST /api/analyze\<close>

text \<open>
  C8, counterexample. A zero-byte upload named "a.txt" is rejected with status 400, but
  with the message that lists the supported extensions, not with "Empty file": the
  extension is checked before the file is read.
\<close>

theorem empty_upload_counterexample:
  "analyze_statement ''a.txt'' ([] :: nat list) (\<lambda>b f. ExcelList ([] :: nat list))
     (\<lambda>b. PdfReturns []) () (\<lambda>f ts p. JSONResponse ())
   = HTTPException 400 ''Only .xls, .xlsx, .pdf files are supported''"
  by code_simp

text \<open>
  C8, amended. \<open>analyze_statement\<close> answers with status 400:
  \<^item> with the message "Only .xls, .xlsx, .pdf files are supported", for every upload whose
    lower-cased filename ends in none of the three extensions;
  \<^item> with the message "Empty file", for every zero-byte upload whose filename has one of
    the three extensions;
  \<^item> for every non-empty upload with one of the three extensions whose extraction
    yields no transactions (the Excel extractor raises or returns none; the PDF
    extractor raises or returns none).
\<close>

theorem analyze_statement_rejections:
  "(\<not> ends_with_any [''.xls'', ''.xlsx'', ''.pdf''] (str_lower filename) \<longrightarrow>
      analyze_statement filename file_bytes excel_extract pdf_extract empty_profile respond =
        HTTPException 400 ''Only .xls, .xlsx, .pdf files are supported'') \<and>
   (ends_with_any [''.xls'', ''.xlsx'', ''.pdf''] (str_lower filename) \<and> file_bytes = [] \<longrightarrow>
      analyze_statement filename file_bytes excel_extract pdf_extract empty_profile respond =
        HTTPException 400 ''Empty file'') \<and>
   (ends_with_any [''.xls'', ''.xlsx''] (str_lower filename) \<and> file_bytes \<noteq> [] \<and>
    excel_transactions (excel_extract file_bytes filename) = [] \<longrightarrow>
      status_code
        (analyze_statement filename file_bytes excel_extract pdf_extract empty_profile respond)
        = 400) \<and>
   (\<not> ends_with_any [''.xls'', ''.xlsx''] (str_lower filename) \<and>
    ends_with ''.pdf'' (str_lower filename) \<and> file_bytes \<noteq> [] \<and>
    pdf_transactions (pdf_extract file_bytes) = [] \<longrightarrow>
      status_code
        (analyze_statement filename file_bytes excel_extract pdf_extract empty_profile respond)
        = 400)"
  by (auto simp: analyze_statement_def SUPPORTED_EXTENSIONS_def ends_with_any_def Let_def
        status_code_def
      split: excel_result.splits pdf_result.splits
      elim: excel_transactions.elims pdf_transactions.elims)

text \<open>
  C8, witness: "notes.txt", a zero-byte "empty.XLS", and a one-byte "s.xlsx" and "s.pdf"
  from which nothing is extracted.
\<close>

theorem analyze_statement_rejections_witness:
  "analyze_statement ''notes.txt'' [1 :: nat] (\<lambda>b f. ExcelPair ([] :: nat list) ())
     (\<lambda>b. PdfReturns []) () (\<lambda>f ts p. JSONResponse ())
     = HTTPException 400 ''Only .xls, .xlsx, .pdf files are supported'' \<and>
   analyze_statement ''empty.XLS'' ([] :: nat list) (\<lambda>b f. ExcelPair ([] :: nat list) ())
     (\<lambda>b. PdfReturns []) () (\<lambda>f ts p. JSONResponse ())
     = HTTPException 400 ''Empty file'' \<and>
   status_code
     (analyze_statement ''s.xlsx'' [1 :: nat] (\<lambda>b f. ExcelPair ([] :: nat list) ())
        (\<lambda>b. PdfReturns []) () (\<lambda>f ts p. JSONResponse ())) = 400 \<and>
   status_code
     (analyze_statement ''s.pdf'' [1 :: nat] (\<lambda>b f. ExcelPair ([] :: nat list) ())
        (\<lambda>b. PdfReturns []) () (\<lambda>f ts p. JSONResponse ())) = 400"
proof -
  have h1: "\<not> ends_with_any [''.xls'', ''.xlsx'', ''.pdf''] (str_lower ''notes.txt'')"
    by code_simp
  have h2: "ends_with_any [''.xls'', ''.xlsx'', ''.pdf''] (str_lower ''empty.XLS'')"
    by code_simp
  have h3: "ends_with_any [''.xls'', ''.xlsx''] (str_lower ''s.xlsx'')"
    by code_simp
  have h4: "\<not> ends_with_any [''.xls'', ''.xlsx''] (str_lower ''s.pdf'') \<and>
            ends_with ''.pdf'' (str_lower ''s.pdf'')"
    by code_simp
  note r = analyze_statement_rejections
    [where excel_extract = "\<lambda>b f. ExcelPair ([] :: nat list) ()"
       and pdf_extract = "\<lambda>b. PdfReturns []" and empty_profile = "()"
       and respond = "\<lambda>f ts p. JSONResponse ()"]
  from r [of "''notes.txt''" "[1 :: nat]"] h1
  have a: "analyze_statement ''notes.txt'' [1 :: nat] (\<lambda>b f. ExcelPair ([] :: nat list) ())
     (\<lambda>b. PdfReturns []) () (\<lambda>f ts p. JSONResponse ())
     = HTTPException 400 ''Only .xls, .xlsx, .pdf files are supported''"
    by blast
  from r [of "''empty.XLS''" "[] :: nat list"] h2
  have b: "analyze_statement ''empty.XLS'' ([] :: nat list) (\<lambda>b f. ExcelPair ([] :: nat list) ())
     (\<lambda>b. PdfReturns []) () (\<lambda>f ts p. JSONResponse ())
     = HTTPException 400 ''Empty file''"
    by blast
  from r [of "''s.xlsx''" "[1 :: nat]"] h3
  have c: "status_code
     (analyze_statement ''s.xlsx'' [1 :: nat] (\<lambda>b f. ExcelPair ([] :: nat list) ())
        (\<lambda>b. PdfReturns []) () (\<lambda>f ts p. JSONResponse ())) = 400"
    by simp
  from r [of "''s.pdf''" "[1 :: nat]"] h4
  have d: "status_code
     (analyze_statement ''s.pdf'' [1 :: nat] (\<lambda>b f. ExcelPair ([] :: nat list) ())
        (\<lambda>b. PdfReturns []) () (\<lambda>f ts p. JSONResponse ())) = 400"
    by simp
  from a b c d show ?thesis by blast
qed

end
